theory Spec2Isabelle
  imports Main
begin

section \<open>Data model\<close>

text \<open>
  The repository is an Express application. Its authentication core lives in
  \<^verbatim>\<open>src/modules/auth.ts\<close> (\<^verbatim>\<open>comparePasswords\<close>, \<^verbatim>\<open>hashPassword\<close>,
  \<^verbatim>\<open>createJWT\<close>, \<^verbatim>\<open>protect\<close>), the credential handlers in
  \<^verbatim>\<open>src/handlers/user.ts\<close> (\<^verbatim>\<open>createNewUser\<close>, \<^verbatim>\<open>signIn\<close>) and the
  application with its error-handling middleware in \<^verbatim>\<open>src/server.ts\<close> (the module
  that \<^verbatim>\<open>src/index.ts\<close> imports and starts).

  The third-party packages the code calls (\<^verbatim>\<open>jsonwebtoken\<close>, \<^verbatim>\<open>bcrypt\<close>, the Prisma
  client) are not part of the repository. They are fields of the record \<open>env\<close>: each is
  a function that either returns a value (\<open>Inr\<close>) or throws (\<open>Inl\<close>). A field stands
  for its package at the moment of the call: \<^verbatim>\<open>jwt.sign\<close> and \<^verbatim>\<open>jwt.verify\<close> read the
  clock, \<^verbatim>\<open>bcrypt.hash\<close> draws a salt, the store has the rows it has. Every theorem below
  holds for all such functions unless it names a hypothesis about one of them.
\<close>

text \<open>A JavaScript value as far as the code builds or reads one.\<close>

datatype jvalue = JStr string | JNum nat

type_synonym json_object = "(string \<times> jvalue) list"

text \<open>
  A thrown JavaScript error object. \<open>etype\<close> is its \<^verbatim>\<open>type\<close> property (absent on a
  fresh error), the one property the repository reads and writes.
\<close>

record js_error =
  ename :: string
  etype :: "string option"

text \<open>The user row of the store: \<^verbatim>\<open>id\<close>, \<^verbatim>\<open>username\<close>, \<^verbatim>\<open>password\<close> (the hash).\<close>

record user =
  user_id :: string
  username :: string
  password :: string

text \<open>The second argument of \<^verbatim>\<open>prisma.user.create\<close>: \<^verbatim>\<open>{ data: { username, password } }\<close>.\<close>

record user_data =
  data_username :: "string option"
  data_password :: string

record sign_options =
  expiresIn :: string

text \<open>
  The request as the code reads it: \<^verbatim>\<open>req.headers.authorization\<close>,
  \<^verbatim>\<open>req.body.username\<close> and \<^verbatim>\<open>req.body.password\<close>, each possibly \<^verbatim>\<open>undefined\<close>.
\<close>

record request =
  authorization :: "string option"
  body_username :: "string option"
  body_password :: "string option"

text \<open>
  The process environment and the external packages. \<open>JWT_SECRET\<close> is
  \<^verbatim>\<open>process.env.JWT_SECRET\<close>, \<open>None\<close> when the variable is unset.
\<close>

record env =
  JWT_SECRET :: "string option"
  jwt_sign :: "json_object \<Rightarrow> string option \<Rightarrow> sign_options \<Rightarrow> js_error + string"
  jwt_verify :: "string \<Rightarrow> string option \<Rightarrow> js_error + json_object"
  bcrypt_hash :: "string option \<Rightarrow> nat \<Rightarrow> js_error + string"
  bcrypt_compare :: "string option \<Rightarrow> string \<Rightarrow> js_error + bool"
  user_create :: "user_data \<Rightarrow> js_error + user"
  user_findUnique :: "string option \<Rightarrow> js_error + user option"

text \<open>
  What a middleware or handler does to the outside, in order: calls into the external
  packages, writes to the response, the assignment to \<^verbatim>\<open>req.user\<close>, and the call of
  \<^verbatim>\<open>next\<close> (with or without an error).
\<close>

datatype action =
    JwtVerify string
  | JwtSign json_object
  | BcryptHash "string option"
  | BcryptCompare "string option" string
  | DbCreate user_data
  | DbFindUnique "string option"
  | ConsoleError js_error
  | ResStatus nat
  | ResSend string
  | ResJson json_object
  | SetReqUser json_object
  | Next
  | NextErr js_error

text \<open>How the function ends: it returns, or an exception leaves it uncaught.\<close>

datatype completion = Returned | Threw js_error

type_synonym run = "action list \<times> completion"

text \<open>The body Express sends: \<^verbatim>\<open>res.send(text)\<close> or \<^verbatim>\<open>res.json(object)\<close>.\<close>

datatype body = Text string | Json json_object

record response =
  status :: nat
  content :: "body option"

text \<open>
  The response a trace leaves behind. Express starts with status 200;
  \<^verbatim>\<open>res.status(n)\<close> sets the status, \<^verbatim>\<open>res.send\<close> and \<^verbatim>\<open>res.json\<close> send the body.
\<close>

fun respond :: "response \<Rightarrow> action list \<Rightarrow> response" where
  "respond r [] = r"
| "respond r (ResStatus n # as) = respond (r\<lparr>status := n\<rparr>) as"
| "respond r (ResSend s # as) = respond (r\<lparr>content := Some (Text s)\<rparr>) as"
| "respond r (ResJson j # as) = respond (r\<lparr>content := Some (Json j)\<rparr>) as"
| "respond r (_ # as) = respond r as"

definition response_of :: "action list \<Rightarrow> response" where
  "response_of as = respond \<lparr>status = 200, content = None\<rparr> as"

section \<open>src/modules/auth.ts\<close>

text \<open>
  \<^verbatim>\<open>String.prototype.split\<close> with a one-character separator: the pieces between the
  occurrences of the separator, empty pieces kept; a string without the separator is
  one piece.
\<close>

fun split :: "char \<Rightarrow> string \<Rightarrow> string list" where
  "split c [] = [[]]"
| "split c (x # xs) =
     (if x = c then [] # split c xs
      else (case split c xs of [] \<Rightarrow> [[x]] | y # ys \<Rightarrow> (x # y) # ys))"

text \<open>Array destructuring \<^verbatim>\<open>const [, token] = a\<close>: element 1, \<^verbatim>\<open>undefined\<close> if there is none.\<close>

fun element :: "'a list \<Rightarrow> nat \<Rightarrow> 'a option" where
  "element [] n = None"
| "element (x # xs) 0 = Some x"
| "element (x # xs) (Suc n) = element xs n"

text \<open>\<^verbatim>\<open>!s\<close> for a value that is a string or \<^verbatim>\<open>undefined\<close>: true for \<^verbatim>\<open>undefined\<close> and for \<^verbatim>\<open>""\<close>.\<close>

fun falsy :: "string option \<Rightarrow> bool" where
  "falsy None = True"
| "falsy (Some s) = (s = [])"

text \<open>
  \<^verbatim>\<open>
  export const comparePasswords = async (password, hash) => {
    return bycrypt.compare(password, hash);
  };
  export const hashPassword = async (password) => {
    return await bycrypt.hash(password, 10);
  };
  \<close>
\<close>

definition comparePasswords :: "env \<Rightarrow> string option \<Rightarrow> string \<Rightarrow> js_error + bool" where
  "comparePasswords env pw hash = bcrypt_compare env pw hash"

definition hashPassword :: "env \<Rightarrow> string option \<Rightarrow> js_error + string" where
  "hashPassword env pw = bcrypt_hash env pw 10"

text \<open>
  \<^verbatim>\<open>
  export const createJWT = (user) => {
    const token = jwt.sign(
      { id: user.id, username: user.username },
      process.env.JWT_SECRET,
      { expiresIn: "24h" }
    );
    return token;
  };
  \<close>
\<close>

definition jwt_payload :: "user \<Rightarrow> json_object" where
  "jwt_payload u = [(''id'', JStr (user_id u)), (''username'', JStr (username u))]"

definition createJWT :: "env \<Rightarrow> user \<Rightarrow> js_error + string" where
  "createJWT env u = jwt_sign env (jwt_payload u) (JWT_SECRET env) \<lparr>expiresIn = ''24h''\<rparr>"

text \<open>
  \<^verbatim>\<open>
  export const protect = (req, res, next) => {
    const bearer = req.headers.authorization;
    if (!bearer) {
      res.status(401);
      res.send("Not authorized");
      return;
    }
    const [, token] = bearer.split(" ");
    if (!token) {
      res.status(401);
      res.send("Not authorized");
      return;
    }
    try {
      const payload = jwt.verify(token, process.env.JWT_SECRET);
      req.user = payload;
      next();
      return;
    } catch (e) {
      console.error(e);
      res.status(401);
      res.send("Not authorized");
      return;
    }
  };
  \<close>
  The two \<open>None\<close> branches below are never taken (\<open>falsy\<close> has answered for them); they
  only make the \<open>case\<close> expressions complete. The exception handler encloses the call of
  \<^verbatim>\<open>jwt.verify\<close>, the only call in the function that can throw.
\<close>

definition bearer_token :: "string \<Rightarrow> string option" where
  "bearer_token bearer = element (split CHR '' '' bearer) 1"

definition not_authorized :: "action list" where
  "not_authorized = [ResStatus 401, ResSend ''Not authorized'']"

definition protect :: "env \<Rightarrow> request \<Rightarrow> run" where
  "protect env req =
     (if falsy (authorization req) then (not_authorized, Returned)
      else
        (case authorization req of
           None \<Rightarrow> (not_authorized, Returned)
         | Some bearer \<Rightarrow>
             (if falsy (bearer_token bearer) then (not_authorized, Returned)
              else
                (case bearer_token bearer of
                   None \<Rightarrow> (not_authorized, Returned)
                 | Some token \<Rightarrow>
                     (case jwt_verify env token (JWT_SECRET env) of
                        Inr payload \<Rightarrow>
                          ([JwtVerify token, SetReqUser payload, Next], Returned)
                      | Inl e \<Rightarrow>
                          (JwtVerify token # ConsoleError e # not_authorized, Returned))))))"

section \<open>src/handlers/user.ts\<close>

text \<open>
  \<^verbatim>\<open>
  export const createNewUser = async (req, res, next) => {
    try {
      const user = await prisma.user.create({
        data: {
          username: req.body.username,
          password: await hashPassword(req.body.password),
        },
      });
      const token = createJWT(user);
      res.status(201).json({ token });
    } catch (error) {
      error.type = "input";
      next(error);
    }
  };
  \<close>
  The argument object is built first, so \<^verbatim>\<open>hashPassword\<close> runs before
  \<^verbatim>\<open>prisma.user.create\<close>. Whatever is thrown inside \<^verbatim>\<open>try\<close> is caught, its
  \<^verbatim>\<open>type\<close> overwritten, and handed to \<^verbatim>\<open>next\<close>.
\<close>

definition as_input :: "js_error \<Rightarrow> action" where
  "as_input e = NextErr (e\<lparr>etype := Some ''input''\<rparr>)"

definition createNewUser :: "env \<Rightarrow> request \<Rightarrow> run" where
  "createNewUser env req =
     (case hashPassword env (body_password req) of
        Inl e \<Rightarrow> ([BcryptHash (body_password req), as_input e], Returned)
      | Inr h \<Rightarrow>
          (let d = \<lparr>data_username = body_username req, data_password = h\<rparr> in
           case user_create env d of
             Inl e \<Rightarrow> ([BcryptHash (body_password req), DbCreate d, as_input e], Returned)
           | Inr u \<Rightarrow>
               (case createJWT env u of
                  Inl e \<Rightarrow>
                    ([BcryptHash (body_password req), DbCreate d, JwtSign (jwt_payload u),
                      as_input e], Returned)
                | Inr token \<Rightarrow>
                    ([BcryptHash (body_password req), DbCreate d, JwtSign (jwt_payload u),
                      ResStatus 201, ResJson [(''token'', JStr token)]], Returned))))"

text \<open>
  \<^verbatim>\<open>
  export const signIn = async (req, res) => {
    const user = await prisma.user.findUnique({
      where: { username: req.body.username },
    });
    if (user) {
      const isValid = await comparePasswords(req.body.password, user?.password);
      if (isValid) {
        const token = createJWT(user);
        res.json({ token });
      } else {
        res.status(401).json({ message: "Invalid credentials" });
      }
    } else {
      res.status(401).json({ message: "Invalid credentials" });
    }
  };
  \<close>
  There is no \<^verbatim>\<open>try\<close>: an exception of a callee ends the function.
\<close>

definition invalid_credentials :: "action list" where
  "invalid_credentials = [ResStatus 401, ResJson [(''message'', JStr ''Invalid credentials'')]]"

definition signIn :: "env \<Rightarrow> request \<Rightarrow> run" where
  "signIn env req =
     (case user_findUnique env (body_username req) of
        Inl e \<Rightarrow> ([DbFindUnique (body_username req)], Threw e)
      | Inr None \<Rightarrow> (DbFindUnique (body_username req) # invalid_credentials, Returned)
      | Inr (Some u) \<Rightarrow>
          (case comparePasswords env (body_password req) (password u) of
             Inl e \<Rightarrow>
               ([DbFindUnique (body_username req),
                 BcryptCompare (body_password req) (password u)], Threw e)
           | Inr False \<Rightarrow>
               (DbFindUnique (body_username req)
                  # BcryptCompare (body_password req) (password u)
                  # invalid_credentials, Returned)
           | Inr True \<Rightarrow>
               (case createJWT env u of
                  Inl e \<Rightarrow>
                    ([DbFindUnique (body_username req),
                      BcryptCompare (body_password req) (password u),
                      JwtSign (jwt_payload u)], Threw e)
                | Inr token \<Rightarrow>
                    ([DbFindUnique (body_username req),
                      BcryptCompare (body_password req) (password u),
                      JwtSign (jwt_payload u),
                      ResJson [(''token'', JStr token)]], Returned))))"

section \<open>src/server.ts\<close>

text \<open>The routes of the two credential handlers and the error-handling middleware.\<close>

text \<open>
  \<^verbatim>\<open>
  app.post("/signup", createNewUser);
  app.post("/login", signIn);

  app.use((err, req, res, next) => {
    if (err.type === "auth") {
      res.status(401).json({ error: "Unauthorized" });
    } else if (err.type === "input") {
      res.status(400).json({ error: "Invalid input" });
    } else {
      res.status(500).json({ error: "Server error" });
    }
  });
  \<close>
\<close>

definition errorHandler :: "js_error \<Rightarrow> action list" where
  "errorHandler err =
     (if etype err = Some ''auth'' then
        [ResStatus 401, ResJson [(''error'', JStr ''Unauthorized'')]]
      else if etype err = Some ''input'' then
        [ResStatus 400, ResJson [(''error'', JStr ''Invalid input'')]]
      else
        [ResStatus 500, ResJson [(''error'', JStr ''Server error'')]])"

text \<open>
  Express hands the argument of \<^verbatim>\<open>next(err)\<close> to the error-handling middleware
  registered after the route; a handler that does not call \<^verbatim>\<open>next\<close> with an error
  does not reach it. The routes below start at the handler: the request is one whose
  body \<^verbatim>\<open>express.json()\<close>, mounted before them, has parsed.
\<close>

fun forwarded :: "action list \<Rightarrow> js_error option" where
  "forwarded [] = None"
| "forwarded (NextErr e # as) = Some e"
| "forwarded (_ # as) = forwarded as"

definition route :: "run \<Rightarrow> run" where
  "route r =
     (case forwarded (fst r) of
        None \<Rightarrow> r
      | Some e \<Rightarrow> (fst r @ errorHandler e, snd r))"

definition post_signup :: "env \<Rightarrow> request \<Rightarrow> run" where
  "post_signup env req = route (createNewUser env req)"

definition post_login :: "env \<Rightarrow> request \<Rightarrow> run" where
  "post_login env req = route (signIn env req)"

section \<open>The header as the specification words it\<close>

text \<open>
  The specification says that the guard splits the header "on whitespace", and speaks of
  the header's whitespace-separated segments. In these words the segments of a string
  are its maximal runs of characters that are not whitespace. The code does not compute
  them (it calls \<^verbatim>\<open>split(" ")\<close>, modelled by \<open>split\<close> above); they are defined here to
  compare the two.
\<close>

definition whitespace :: "char \<Rightarrow> bool" where
  "whitespace c \<longleftrightarrow>
     c = CHR '' '' \<or> c = CHR 0x09 \<or> c = CHR 0x0A \<or> c = CHR 0x0B \<or>
     c = CHR 0x0C \<or> c = CHR 0x0D"

text \<open>\<open>segments_from w s\<close>: the segments of \<open>s\<close>, with \<open>w\<close> the run read so far, reversed.\<close>

fun segments_from :: "string \<Rightarrow> string \<Rightarrow> string list" where
  "segments_from w [] = (if w = [] then [] else [rev w])"
| "segments_from w (c # cs) =
     (if whitespace c then
        (if w = [] then segments_from [] cs else rev w # segments_from [] cs)
      else segments_from (c # w) cs)"

definition whitespace_segments :: "string \<Rightarrow> string list" where
  "whitespace_segments s = segments_from [] s"

section \<open>Example environment\<close>

text \<open>
  A small environment to run the functions on: one stored user, a signer that signs
  for two users, a verifier that accepts one token, a hash that is a tagged copy of the
  password, and a store that refuses the name it already holds.
\<close>

definition alice :: user where
  "alice = \<lparr>user_id = ''1'', username = ''alice'', password = ''hashed:pw1''\<rparr>"

definition alice_claims :: json_object where
  "alice_claims = [(''id'', JStr ''1''), (''username'', JStr ''alice''),
                   (''iat'', JNum 0), (''exp'', JNum 86400)]"

definition lib_error :: "string \<Rightarrow> js_error" where
  "lib_error n = \<lparr>ename = n, etype = None\<rparr>"

definition example_env :: env where
  "example_env =
     \<lparr>JWT_SECRET = Some ''s3cret'',
      jwt_sign = (\<lambda>p s opts.
         if s = Some ''s3cret'' \<and> p = [(''id'', JStr ''1''), (''username'', JStr ''alice'')]
         then Inr ''hdr.alice.sig''
         else if s = Some ''s3cret'' \<and> p = [(''id'', JStr ''2''), (''username'', JStr ''carol'')]
         then Inr ''hdr.carol.sig''
         else Inl (lib_error ''Error'')),
      jwt_verify = (\<lambda>t s.
         if s = Some ''s3cret'' \<and> t = ''hdr.alice.sig''
         then Inr alice_claims else Inl (lib_error ''JsonWebTokenError'')),
      bcrypt_hash = (\<lambda>pw rounds.
         case pw of None \<Rightarrow> Inl (lib_error ''Error'') | Some p \<Rightarrow> Inr (''hashed:'' @ p)),
      bcrypt_compare = (\<lambda>pw h.
         case pw of None \<Rightarrow> Inl (lib_error ''Error'') | Some p \<Rightarrow> Inr (h = ''hashed:'' @ p)),
      user_create = (\<lambda>d.
         if data_username d = Some ''alice''
         then Inl (lib_error ''PrismaClientKnownRequestError'')
         else (case data_username d of
                 None \<Rightarrow> Inl (lib_error ''PrismaClientValidationError'')
               | Some n \<Rightarrow> Inr \<lparr>user_id = ''2'', username = n, password = data_password d\<rparr>)),
      user_findUnique = (\<lambda>n.
         case n of
           None \<Rightarrow> Inl (lib_error ''PrismaClientValidationError'')
         | Some name \<Rightarrow> Inr (if name = ''alice'' then Some alice else None))\<rparr>"

text \<open>The same environment with the database unreachable.\<close>

definition offline_env :: env where
  "offline_env =
     example_env
       \<lparr>user_create := (\<lambda>d. Inl (lib_error ''PrismaClientInitializationError'')),
        user_findUnique := (\<lambda>n. Inl (lib_error ''PrismaClientInitializationError''))\<rparr>"

text \<open>A request that carries a username and a password in its body and no header.\<close>

definition login :: "string \<Rightarrow> string \<Rightarrow> request" where
  "login n p = \<lparr>authorization = None, body_username = Some n, body_password = Some p\<rparr>"

text \<open>A request that carries only the \<^verbatim>\<open>Authorization\<close> header.\<close>

definition with_header :: "string option \<Rightarrow> request" where
  "with_header h = \<lparr>authorization = h, body_username = None, body_password = None\<rparr>"

section \<open>Splitting the header\<close>

lemma split_not_Nil: "split c s \<noteq> []"
  by (induction s) (auto split: list.splits)

lemma split_no_separator: "c \<notin> set s \<Longrightarrow> split c s = [s]"
  by (induction s) auto

lemma split_at_separator: "c \<notin> set a \<Longrightarrow> split c (a @ c # r) = a # split c r"
  by (induction a) auto

text \<open>
  A header of the shape \<open>scheme token rest\<close>, the three separated by single spaces
  (\<open>rest\<close> may be missing): the token is the second piece.
\<close>

lemma bearer_token_shape:
  assumes "CHR '' '' \<notin> set scheme" and "CHR '' '' \<notin> set tok"
    and "rest = [] \<or> (\<exists>r. rest = CHR '' '' # r)"
  shows "bearer_token (scheme @ CHR '' '' # tok @ rest) = Some tok"
proof -
  have "split CHR '' '' (tok @ rest)
          = tok # (if rest = [] then [] else split CHR '' '' (tl rest))"
    using assms(2,3) by (auto simp: split_no_separator split_at_separator)
  then show ?thesis
    using assms(1) by (simp add: bearer_token_def split_at_separator)
qed

lemma bearer_token_no_space: "CHR '' '' \<notin> set h \<Longrightarrow> bearer_token h = None"
  by (simp add: bearer_token_def split_no_separator)

text \<open>
  The two readings agree on a header that neither begins nor ends with whitespace and
  has fewer than two whitespace-separated segments: it contains no whitespace at all,
  so \<open>split\<close> at the space leaves it in one piece.
\<close>

lemma segments_from_word:
  "\<forall>c\<in>set xs. \<not> whitespace c \<Longrightarrow>
     segments_from w (xs @ ys) = segments_from (rev xs @ w) ys"
  by (induction xs arbitrary: w) auto

lemma segments_from_not_Nil:
  "w \<noteq> [] \<or> (\<exists>c\<in>set ys. \<not> whitespace c) \<Longrightarrow> segments_from w ys \<noteq> []"
  by (induction ys arbitrary: w) auto

lemma one_segment_no_whitespace:
  assumes "s \<noteq> []" and "\<not> whitespace (hd s)" and "\<not> whitespace (last s)"
    and "length (whitespace_segments s) < 2"
  shows "\<forall>c\<in>set s. \<not> whitespace c"
proof (rule ccontr)
  assume some: "\<not> (\<forall>c\<in>set s. \<not> whitespace c)"
  define xs where "xs = takeWhile (\<lambda>c. \<not> whitespace c) s"
  define rest where "rest = dropWhile (\<lambda>c. \<not> whitespace c) s"
  have s: "s = xs @ rest" by (simp add: xs_def rest_def)
  have xs: "\<forall>c\<in>set xs. \<not> whitespace c" "xs \<noteq> []"
    using assms(1,2) by (auto simp: xs_def dest: set_takeWhileD) (cases s, auto)
  have "rest \<noteq> []"
    using some by (auto simp: rest_def)
  then obtain w ys where rest: "rest = w # ys" and w: "whitespace w"
    using hd_dropWhile [of "\<lambda>c. \<not> whitespace c" s] by (cases rest) (auto simp: rest_def)
  have "ys \<noteq> []" using assms(3) s rest w by auto
  then have "last ys = last s" using s rest by simp
  then have "\<exists>c\<in>set ys. \<not> whitespace c"
    using assms(3) \<open>ys \<noteq> []\<close> last_in_set by metis
  then have "segments_from [] ys \<noteq> []" by (simp add: segments_from_not_Nil)
  moreover have "whitespace_segments s = xs # segments_from [] ys"
    using xs w by (simp add: whitespace_segments_def s rest segments_from_word)
  ultimately show False using assms(4) by (cases "segments_from [] ys") auto
qed

lemma one_segment_no_token:
  assumes "s \<noteq> []" and "\<not> whitespace (hd s)" and "\<not> whitespace (last s)"
    and "length (whitespace_segments s) < 2"
  shows "bearer_token s = None"
proof -
  have "CHR '' '' \<notin> set s"
    using one_segment_no_whitespace [OF assms] by (auto simp: whitespace_def)
  then show ?thesis by (rule bearer_token_no_space)
qed

section \<open>The access guard\<close>

text \<open>
  The four ways through \<open>protect\<close> on the example environment: no header, a header
  without a token, a token the verifier refuses, and a token it accepts.
\<close>

lemma protect_examples:
  "protect example_env (with_header None)
     = ([ResStatus 401, ResSend ''Not authorized''], Returned)"
  "protect example_env (with_header (Some ''Bearer''))
     = ([ResStatus 401, ResSend ''Not authorized''], Returned)"
  "protect example_env (with_header (Some ''Bearer forged''))
     = ([JwtVerify ''forged'', ConsoleError (lib_error ''JsonWebTokenError''),
         ResStatus 401, ResSend ''Not authorized''], Returned)"
  "protect example_env (with_header (Some ''Bearer hdr.alice.sig''))
     = ([JwtVerify ''hdr.alice.sig'', SetReqUser alice_claims, Next], Returned)"
  by (simp_all add: protect_def bearer_token_def not_authorized_def example_env_def
        with_header_def)



text \<open>
  Claim C5. A request without the \<^verbatim>\<open>Authorization\<close> header is answered 401 at once:
  the trace is the two writes to the response and nothing else, so \<^verbatim>\<open>jwt.verify\<close> is
  not called. The same holds for a header with no second segment, in both readings of
  the split: when the split at the space character (the separator the source passes to
  \<^verbatim>\<open>split\<close>, empty pieces kept) has no second piece or an empty one; and when the
  header has fewer than two whitespace-separated segments, a header being a field
  value of HTTP, which neither begins nor ends with whitespace.
\<close>

theorem protect_rejects_before_verifying:
  "(authorization req = None \<longrightarrow>
      protect env req = ([ResStatus 401, ResSend ''Not authorized''], Returned)) \<and>
   (\<forall>bearer. authorization req = Some bearer \<and>
       falsy (element (split CHR '' '' bearer) 1) \<longrightarrow>
      protect env req = ([ResStatus 401, ResSend ''Not authorized''], Returned)) \<and>
   (\<forall>bearer. authorization req = Some bearer \<and> bearer \<noteq> [] \<and>
       \<not> whitespace (hd bearer) \<and> \<not> whitespace (last bearer) \<and>
       length (whitespace_segments bearer) < 2 \<longrightarrow>
      protect env req = ([ResStatus 401, ResSend ''Not authorized''], Returned))"
proof -
  have piece: "protect env req = ([ResStatus 401, ResSend ''Not authorized''], Returned)"
    if "authorization req = Some bearer" and "falsy (bearer_token bearer)" for bearer
    using that by (simp add: protect_def not_authorized_def)
  have "falsy (bearer_token bearer)"
    if "bearer \<noteq> []" "\<not> whitespace (hd bearer)" "\<not> whitespace (last bearer)"
       "length (whitespace_segments bearer) < 2" for bearer
    using one_segment_no_token [OF that] by simp
  with piece show ?thesis
    by (auto simp: protect_def not_authorized_def bearer_token_def)
qed

theorem protect_rejects_before_verifying_witness:
  "authorization (with_header None) = None \<and>
   protect example_env (with_header None)
     = ([ResStatus 401, ResSend ''Not authorized''], Returned) \<and>
   authorization (with_header (Some ''Bearer '')) = Some ''Bearer '' \<and>
   falsy (element (split CHR '' '' ''Bearer '') 1) \<and>
   protect example_env (with_header (Some ''Bearer ''))
     = ([ResStatus 401, ResSend ''Not authorized''], Returned) \<and>
   authorization (with_header (Some ''Bearer'')) = Some ''Bearer'' \<and>
   \<not> whitespace (hd ''Bearer'') \<and> \<not> whitespace (last ''Bearer'') \<and>
   length (whitespace_segments ''Bearer'') < 2 \<and>
   protect example_env (with_header (Some ''Bearer''))
     = ([ResStatus 401, ResSend ''Not authorized''], Returned)"
  using protect_rejects_before_verifying [of "with_header None" example_env]
        protect_rejects_before_verifying [of "with_header (Some ''Bearer '')" example_env]
        protect_rejects_before_verifying [of "with_header (Some ''Bearer'')" example_env]
  by (simp add: with_header_def whitespace_def whitespace_segments_def)

text \<open>
  The condition on the two ends of the header is needed for the second reading. A
  string made of "Bearer", a space and a tab has one whitespace-separated segment, yet
  its second piece at the space is the tab, and \<^verbatim>\<open>jwt.verify\<close> is called with it. A
  string made of a space and a token has one segment as well; the code takes the token
  for the second piece and verifies it. Neither string is a field value.
\<close>

lemma protect_on_untrimmed_headers:
  "whitespace_segments (''Bearer '' @ [CHR 0x09]) = [''Bearer''] \<and>
   protect example_env (with_header (Some (''Bearer '' @ [CHR 0x09])))
     = ([JwtVerify [CHR 0x09], ConsoleError \<lparr>ename = ''JsonWebTokenError'', etype = None\<rparr>,
         ResStatus 401, ResSend ''Not authorized''], Returned) \<and>
   whitespace_segments '' hdr.alice.sig'' = [''hdr.alice.sig''] \<and>
   protect example_env (with_header (Some '' hdr.alice.sig''))
     = ([JwtVerify ''hdr.alice.sig'', SetReqUser alice_claims, Next], Returned)"
  by (simp add: protect_def bearer_token_def not_authorized_def example_env_def
        with_header_def whitespace_def whitespace_segments_def lib_error_def)

text \<open>
  Claim C9, as the code has it. The guard never looks at the first piece of the
  header. Let the header be \<open>scheme\<close>, one space, \<open>tok\<close>, and then nothing or a space
  followed by any text, where \<open>scheme\<close> and \<open>tok\<close> contain no space and \<open>tok\<close> is not
  empty. If the verifier accepts \<open>tok\<close> under the process secret and returns
  \<open>payload\<close>, the request is admitted with \<open>payload\<close> as \<^verbatim>\<open>req.user\<close>, whatever
  \<open>scheme\<close> is (it need not be "Bearer") and whatever follows the second space.
\<close>

theorem protect_ignores_scheme:
  assumes "authorization req = Some (scheme @ CHR '' '' # tok @ rest)"
    and "CHR '' '' \<notin> set scheme"
    and "CHR '' '' \<notin> set tok" and "tok \<noteq> []"
    and "rest = [] \<or> (\<exists>r. rest = CHR '' '' # r)"
    and "jwt_verify env tok (JWT_SECRET env) = Inr payload"
  shows "protect env req = ([JwtVerify tok, SetReqUser payload, Next], Returned)"
proof -
  have "bearer_token (scheme @ CHR '' '' # tok @ rest) = Some tok"
    using assms(2,3,5) by (rule bearer_token_shape)
  then show ?thesis
    using assms(1,4,6) by (simp add: protect_def)
qed

theorem protect_ignores_scheme_witness:
  "authorization (with_header (Some ''Basic hdr.alice.sig and more''))
     = Some (''Basic'' @ CHR '' '' # ''hdr.alice.sig'' @ '' and more'') \<and>
   jwt_verify example_env ''hdr.alice.sig'' (JWT_SECRET example_env) = Inr alice_claims \<and>
   protect example_env (with_header (Some ''Basic hdr.alice.sig and more''))
     = ([JwtVerify ''hdr.alice.sig'', SetReqUser alice_claims, Next], Returned)"
  using protect_ignores_scheme
     [of "with_header (Some ''Basic hdr.alice.sig and more'')"
         "''Basic''" "''hdr.alice.sig''" "'' and more''" example_env alice_claims]
  by (simp add: example_env_def with_header_def)

text \<open>
  Claim C9 as stated, with whitespace-separated segments, does not hold: a tab, or more
  than one space, between the scheme and the token is whitespace but not the separator
  of the code. In both headers below the second whitespace-separated segment is a
  token that the verifier accepts; the guard answers 401 without calling the verifier.
\<close>

theorem protect_rejects_other_separators:
  "jwt_verify example_env ''hdr.alice.sig'' (JWT_SECRET example_env) = Inr alice_claims \<and>
   whitespace_segments (''Bearer'' @ [CHR 0x09] @ ''hdr.alice.sig'')
     = [''Bearer'', ''hdr.alice.sig''] \<and>
   protect example_env (with_header (Some (''Bearer'' @ [CHR 0x09] @ ''hdr.alice.sig'')))
     = ([ResStatus 401, ResSend ''Not authorized''], Returned) \<and>
   whitespace_segments ''Bearer  hdr.alice.sig'' = [''Bearer'', ''hdr.alice.sig''] \<and>
   protect example_env (with_header (Some ''Bearer  hdr.alice.sig''))
     = ([ResStatus 401, ResSend ''Not authorized''], Returned)"
  by (simp add: protect_def bearer_token_def not_authorized_def example_env_def
        with_header_def whitespace_def whitespace_segments_def)

text \<open>
  Claim C6. Let the header be "Bearer", one space and a token \<open>tok\<close> (not empty, without
  a space, as the compact serialisation is). First, whatever claim set the verifier
  returns for \<open>tok\<close> under the process secret is stored unchanged in \<^verbatim>\<open>req.user\<close>, and
  \<^verbatim>\<open>next()\<close> is called; nothing is written to the response. Second, let \<open>tok\<close> be what
  \<open>createJWT\<close> returned for the user \<open>u\<close>, and let the package verify what it signed:
  a token signed from a payload \<open>p\<close> with \<^verbatim>\<open>expiresIn: "24h"\<close> at time \<open>t\<close> verifies, while
  unexpired, to \<open>p\<close> extended by \<^verbatim>\<open>iat\<close> = \<open>t\<close> and \<^verbatim>\<open>exp\<close> = \<open>t + 86400\<close>. Then the
  claim set in \<^verbatim>\<open>req.user\<close> is exactly \<^verbatim>\<open>{id, username, iat, exp}\<close> with the user's
  \<^verbatim>\<open>id\<close> and \<^verbatim>\<open>username\<close>: \<open>createJWT\<close> hands the signer these two fields and no other.
\<close>

theorem protect_admits_issued_token:
  assumes header: "authorization req = Some (''Bearer '' @ tok)"
    and wire: "tok \<noteq> []" "CHR '' '' \<notin> set tok"
  shows
    "(\<forall>payload. jwt_verify env tok (JWT_SECRET env) = Inr payload \<longrightarrow>
        protect env req = ([JwtVerify tok, SetReqUser payload, Next], Returned)) \<and>
     (createJWT env u = Inr tok \<and>
      (\<forall>p. jwt_sign env p (JWT_SECRET env) \<lparr>expiresIn = ''24h''\<rparr> = Inr tok \<longrightarrow>
           jwt_verify env tok (JWT_SECRET env)
             = Inr (p @ [(''iat'', JNum t), (''exp'', JNum (t + 86400))])) \<longrightarrow>
        protect env req
          = ([JwtVerify tok,
              SetReqUser [(''id'', JStr (user_id u)), (''username'', JStr (username u)),
                          (''iat'', JNum t), (''exp'', JNum (t + 86400))],
              Next], Returned))"
proof -
  have token: "bearer_token (''Bearer'' @ CHR '' '' # tok @ []) = Some tok"
    using wire(2) by (intro bearer_token_shape) simp_all
  have admit: "protect env req = ([JwtVerify tok, SetReqUser payload, Next], Returned)"
    if "jwt_verify env tok (JWT_SECRET env) = Inr payload" for payload
    using that token header wire(1) by (simp add: protect_def)
  have "jwt_verify env tok (JWT_SECRET env)
          = Inr [(''id'', JStr (user_id u)), (''username'', JStr (username u)),
                 (''iat'', JNum t), (''exp'', JNum (t + 86400))]"
    if "createJWT env u = Inr tok"
      and "\<forall>p. jwt_sign env p (JWT_SECRET env) \<lparr>expiresIn = ''24h''\<rparr> = Inr tok \<longrightarrow>
               jwt_verify env tok (JWT_SECRET env)
                 = Inr (p @ [(''iat'', JNum t), (''exp'', JNum (t + 86400))])"
    using that by (simp add: createJWT_def jwt_payload_def)
  with admit show ?thesis by blast
qed

theorem protect_admits_issued_token_witness:
  "authorization (with_header (Some ''Bearer hdr.alice.sig'')) = Some (''Bearer '' @ ''hdr.alice.sig'') \<and>
   createJWT example_env alice = Inr ''hdr.alice.sig'' \<and>
   jwt_verify example_env ''hdr.alice.sig'' (JWT_SECRET example_env)
     = Inr ([(''id'', JStr ''1''), (''username'', JStr ''alice'')]
            @ [(''iat'', JNum 0), (''exp'', JNum (0 + 86400))]) \<and>
   protect example_env (with_header (Some ''Bearer hdr.alice.sig''))
     = ([JwtVerify ''hdr.alice.sig'',
         SetReqUser [(''id'', JStr ''1''), (''username'', JStr ''alice''),
                     (''iat'', JNum 0), (''exp'', JNum 86400)],
         Next], Returned)"
proof -
  have issued: "createJWT example_env alice = Inr ''hdr.alice.sig''"
    by (simp add: createJWT_def jwt_payload_def example_env_def alice_def)
  have roundtrip:
    "\<forall>p. jwt_sign example_env p (JWT_SECRET example_env) \<lparr>expiresIn = ''24h''\<rparr>
           = Inr ''hdr.alice.sig'' \<longrightarrow>
         jwt_verify example_env ''hdr.alice.sig'' (JWT_SECRET example_env)
           = Inr (p @ [(''iat'', JNum 0), (''exp'', JNum (0 + 86400))])"
    by (simp add: example_env_def alice_claims_def)
  have header: "authorization (with_header (Some ''Bearer hdr.alice.sig''))
                  = Some (''Bearer '' @ ''hdr.alice.sig'')"
    by (simp add: with_header_def)
  have "protect example_env (with_header (Some ''Bearer hdr.alice.sig''))
          = ([JwtVerify ''hdr.alice.sig'',
              SetReqUser [(''id'', JStr (user_id alice)), (''username'', JStr (username alice)),
                          (''iat'', JNum 0), (''exp'', JNum (0 + 86400))],
              Next], Returned)"
    using protect_admits_issued_token
            [OF header, of example_env alice 0] issued roundtrip
    by simp
  moreover have "jwt_verify example_env ''hdr.alice.sig'' (JWT_SECRET example_env)
                   = Inr ([(''id'', JStr ''1''), (''username'', JStr ''alice'')]
                          @ [(''iat'', JNum 0), (''exp'', JNum (0 + 86400))])"
    by (simp add: example_env_def alice_claims_def)
  ultimately show ?thesis
    using issued header by (simp add: alice_def)
qed

section \<open>The credential handlers\<close>

text \<open>
  The two rejecting branches of \<open>signIn\<close> write the same response: when the store finds
  no user, and when it finds one and the comparison returns false, the handler returns
  with status 401 and the body \<^verbatim>\<open>{message: "Invalid credentials"}\<close>. When the store
  finds the user, the comparison returns true and \<open>createJWT\<close> returns a token, the
  handler answers with that token (\<^verbatim>\<open>res.json\<close>, so status 200).
\<close>

lemma signIn_branches:
  "(user_findUnique env (body_username req) = Inr None \<longrightarrow>
      snd (signIn env req) = Returned \<and>
      response_of (fst (signIn env req))
        = \<lparr>status = 401,
           content = Some (Json [(''message'', JStr ''Invalid credentials'')])\<rparr>) \<and>
   (\<forall>u. user_findUnique env (body_username req) = Inr (Some u) \<and>
        comparePasswords env (body_password req) (password u) = Inr False \<longrightarrow>
      snd (signIn env req) = Returned \<and>
      response_of (fst (signIn env req))
        = \<lparr>status = 401,
           content = Some (Json [(''message'', JStr ''Invalid credentials'')])\<rparr>) \<and>
   (\<forall>u token. user_findUnique env (body_username req) = Inr (Some u) \<and>
        comparePasswords env (body_password req) (password u) = Inr True \<and>
        createJWT env u = Inr token \<longrightarrow>
      snd (signIn env req) = Returned \<and>
      response_of (fst (signIn env req))
        = \<lparr>status = 200, content = Some (Json [(''token'', JStr token)])\<rparr>)"
  by (simp add: signIn_def invalid_credentials_def response_of_def)

lemma signIn_branches_examples:
  "user_findUnique example_env (body_username (login ''bob'' ''pw1'')) = Inr None \<and>
   response_of (fst (signIn example_env (login ''bob'' ''pw1'')))
     = \<lparr>status = 401, content = Some (Json [(''message'', JStr ''Invalid credentials'')])\<rparr> \<and>
   user_findUnique example_env (body_username (login ''alice'' ''wrong'')) = Inr (Some alice) \<and>
   comparePasswords example_env (body_password (login ''alice'' ''wrong'')) (password alice)
     = Inr False \<and>
   response_of (fst (signIn example_env (login ''alice'' ''wrong'')))
     = \<lparr>status = 401, content = Some (Json [(''message'', JStr ''Invalid credentials'')])\<rparr> \<and>
   user_findUnique example_env (body_username (login ''alice'' ''pw1'')) = Inr (Some alice) \<and>
   comparePasswords example_env (body_password (login ''alice'' ''pw1'')) (password alice)
     = Inr True \<and>
   createJWT example_env alice = Inr ''hdr.alice.sig'' \<and>
   response_of (fst (signIn example_env (login ''alice'' ''pw1'')))
     = \<lparr>status = 200, content = Some (Json [(''token'', JStr ''hdr.alice.sig'')])\<rparr>"
proof -
  have unknown:
    "user_findUnique example_env (body_username (login ''bob'' ''pw1'')) = Inr None"
    by (simp add: example_env_def login_def)
  have wrong:
    "user_findUnique example_env (body_username (login ''alice'' ''wrong'')) = Inr (Some alice)"
    "comparePasswords example_env (body_password (login ''alice'' ''wrong'')) (password alice)
       = Inr False"
    by (simp_all add: comparePasswords_def example_env_def login_def alice_def)
  have right:
    "user_findUnique example_env (body_username (login ''alice'' ''pw1'')) = Inr (Some alice)"
    "comparePasswords example_env (body_password (login ''alice'' ''pw1'')) (password alice)
       = Inr True"
    "createJWT example_env alice = Inr ''hdr.alice.sig''"
    by (simp_all add: comparePasswords_def createJWT_def jwt_payload_def example_env_def
          login_def alice_def)
  show ?thesis
    using unknown wrong right
      signIn_branches [of example_env "login ''bob'' ''pw1''"]
      signIn_branches [of example_env "login ''alice'' ''wrong''"]
      signIn_branches [of example_env "login ''alice'' ''pw1''"]
    by blast
qed

text \<open>
  Claim C4 says that for every login request the response is the same for an unknown
  username and for a wrong password, so that a client cannot tell whether the username
  exists. The code does not achieve this for a login request without a password. The
  comparison is called only when the user exists, \<^verbatim>\<open>bcrypt.compare\<close> throws when it is
  given no password, and \<open>signIn\<close> has no \<^verbatim>\<open>try\<close>. So for the stored user alice the
  handler ends with the exception and writes no response, and for the unknown user bob
  it answers 401 "Invalid credentials": the two requests differ only in the username,
  and the answers tell the client which of the two names exists.
\<close>

theorem signIn_missing_password_reveals_user:
  "user_findUnique example_env (Some ''alice'') = Inr (Some alice) \<and>
   user_findUnique example_env (Some ''bob'') = Inr None \<and>
   signIn example_env \<lparr>authorization = None, body_username = Some ''alice'', body_password = None\<rparr>
     = ([DbFindUnique (Some ''alice''), BcryptCompare None ''hashed:pw1''],
        Threw \<lparr>ename = ''Error'', etype = None\<rparr>) \<and>
   response_of (fst (signIn example_env
       \<lparr>authorization = None, body_username = Some ''alice'', body_password = None\<rparr>))
     = \<lparr>status = 200, content = None\<rparr> \<and>
   signIn example_env \<lparr>authorization = None, body_username = Some ''bob'', body_password = None\<rparr>
     = ([DbFindUnique (Some ''bob''), ResStatus 401,
         ResJson [(''message'', JStr ''Invalid credentials'')]], Returned) \<and>
   response_of (fst (signIn example_env
       \<lparr>authorization = None, body_username = Some ''bob'', body_password = None\<rparr>))
     = \<lparr>status = 401, content = Some (Json [(''message'', JStr ''Invalid credentials'')])\<rparr>"
  by (simp add: signIn_def comparePasswords_def invalid_credentials_def response_of_def
        example_env_def alice_def lib_error_def)

text \<open>
  Claim C10. \<open>signIn\<close> intercepts nothing. When the lookup in the store throws, and
  when the lookup finds a user and the comparison throws, the same exception leaves
  \<open>signIn\<close>: it is not handed to \<^verbatim>\<open>next\<close>, nothing is written to the response, and the
  error-handling middleware adds nothing on the login route (so no 500 "Server error").
  \<open>createNewUser\<close>, with its \<^verbatim>\<open>try\<close>/\<^verbatim>\<open>catch\<close>, always returns.
\<close>

theorem signIn_does_not_catch:
  "(\<forall>e. user_findUnique env (body_username req) = Inl e \<longrightarrow>
      snd (signIn env req) = Threw e \<and>
      forwarded (fst (signIn env req)) = None \<and>
      response_of (fst (signIn env req)) = \<lparr>status = 200, content = None\<rparr> \<and>
      post_login env req = signIn env req) \<and>
   (\<forall>u e. user_findUnique env (body_username req) = Inr (Some u) \<and>
      comparePasswords env (body_password req) (password u) = Inl e \<longrightarrow>
      snd (signIn env req) = Threw e \<and>
      forwarded (fst (signIn env req)) = None \<and>
      response_of (fst (signIn env req)) = \<lparr>status = 200, content = None\<rparr> \<and>
      post_login env req = signIn env req) \<and>
   snd (createNewUser env req) = Returned"
  by (simp add: signIn_def post_login_def route_def response_of_def createNewUser_def
           Let_def split: sum.splits)

theorem signIn_does_not_catch_witness:
  "user_findUnique offline_env (body_username (login ''alice'' ''pw1''))
     = Inl (lib_error ''PrismaClientInitializationError'') \<and>
   snd (signIn offline_env (login ''alice'' ''pw1''))
     = Threw (lib_error ''PrismaClientInitializationError'') \<and>
   post_login offline_env (login ''alice'' ''pw1'') = signIn offline_env (login ''alice'' ''pw1'') \<and>
   user_findUnique example_env
       (body_username \<lparr>authorization = None, body_username = Some ''alice'', body_password = None\<rparr>)
     = Inr (Some alice) \<and>
   comparePasswords example_env
       (body_password \<lparr>authorization = None, body_username = Some ''alice'', body_password = None\<rparr>)
       (password alice) = Inl (lib_error ''Error'') \<and>
   snd (signIn example_env
          \<lparr>authorization = None, body_username = Some ''alice'', body_password = None\<rparr>)
     = Threw (lib_error ''Error'')"
proof -
  have lookup:
    "user_findUnique offline_env (body_username (login ''alice'' ''pw1''))
       = Inl (lib_error ''PrismaClientInitializationError'')"
    by (simp add: offline_env_def)
  have compare:
    "user_findUnique example_env
       (body_username \<lparr>authorization = None, body_username = Some ''alice'', body_password = None\<rparr>)
     = Inr (Some alice)"
    "comparePasswords example_env
       (body_password \<lparr>authorization = None, body_username = Some ''alice'', body_password = None\<rparr>)
       (password alice) = Inl (lib_error ''Error'')"
    by (simp_all add: example_env_def comparePasswords_def)
  show ?thesis
    using lookup compare
      signIn_does_not_catch [of offline_env "login ''alice'' ''pw1''"]
      signIn_does_not_catch [of example_env
         "\<lparr>authorization = None, body_username = Some ''alice'', body_password = None\<rparr>"]
    by blast
qed

text \<open>
  The signup route on a parsed body. When hashing, the insertion and \<open>createJWT\<close> all
  return, the handler has hashed the password, stored the user with the hash and
  answers 201 with the token. When the insertion throws, whatever the error is, the
  handler sets its \<^verbatim>\<open>type\<close> to "input" and hands it to \<^verbatim>\<open>next\<close>, and the error-handling
  middleware answers 400 \<^verbatim>\<open>{error: "Invalid input"}\<close>.
\<close>

lemma signup_success_and_store_failure:
  "(\<forall>h u token.
      hashPassword env (body_password req) = Inr h \<and>
      user_create env \<lparr>data_username = body_username req, data_password = h\<rparr> = Inr u \<and>
      createJWT env u = Inr token \<longrightarrow>
      post_signup env req
        = ([BcryptHash (body_password req),
            DbCreate \<lparr>data_username = body_username req, data_password = h\<rparr>,
            JwtSign [(''id'', JStr (user_id u)), (''username'', JStr (username u))],
            ResStatus 201, ResJson [(''token'', JStr token)]], Returned) \<and>
      response_of (fst (post_signup env req))
        = \<lparr>status = 201, content = Some (Json [(''token'', JStr token)])\<rparr>) \<and>
   (\<forall>h e.
      hashPassword env (body_password req) = Inr h \<and>
      user_create env \<lparr>data_username = body_username req, data_password = h\<rparr> = Inl e \<longrightarrow>
      forwarded (fst (post_signup env req)) = Some (e\<lparr>etype := Some ''input''\<rparr>) \<and>
      snd (post_signup env req) = Returned \<and>
      response_of (fst (post_signup env req))
        = \<lparr>status = 400, content = Some (Json [(''error'', JStr ''Invalid input'')])\<rparr>)"
  by (simp add: post_signup_def route_def createNewUser_def as_input_def jwt_payload_def
        errorHandler_def response_of_def Let_def split: sum.splits)

lemma signup_examples:
  "response_of (fst (post_signup example_env (login ''carol'' ''pw3'')))
     = \<lparr>status = 201, content = Some (Json [(''token'', JStr ''hdr.carol.sig'')])\<rparr>"
  "response_of (fst (post_signup example_env (login ''alice'' ''pw9'')))
     = \<lparr>status = 400, content = Some (Json [(''error'', JStr ''Invalid input'')])\<rparr>"
  by (simp_all add: post_signup_def route_def createNewUser_def hashPassword_def createJWT_def
        jwt_payload_def as_input_def errorHandler_def response_of_def example_env_def
        login_def lib_error_def)

text \<open>
  Claim C7 says that on success the signup handler answers 201 with the token, that a
  uniqueness violation of the store is surfaced as 400, and that a persistence or
  infrastructure failure is surfaced as 500 "Server error". The code does not achieve
  the last part: its \<^verbatim>\<open>catch\<close> block sets \<^verbatim>\<open>type\<close> to "input" on every error. With the
  database unreachable the insertion throws an error that is no uniqueness violation,
  and the signup route answers 400 "Invalid input", not 500 "Server error" (the answer
  that the middleware has for such an error, and that the product and provider handlers
  reach by handing the error on unchanged).
\<close>

theorem signup_store_failure_is_400:
  "user_create offline_env \<lparr>data_username = Some ''carol'', data_password = ''hashed:pw3''\<rparr>
     = Inl \<lparr>ename = ''PrismaClientInitializationError'', etype = None\<rparr> \<and>
   post_signup offline_env (login ''carol'' ''pw3'')
     = ([BcryptHash (Some ''pw3''),
         DbCreate \<lparr>data_username = Some ''carol'', data_password = ''hashed:pw3''\<rparr>,
         NextErr \<lparr>ename = ''PrismaClientInitializationError'', etype = Some ''input''\<rparr>,
         ResStatus 400, ResJson [(''error'', JStr ''Invalid input'')]], Returned) \<and>
   response_of (fst (post_signup offline_env (login ''carol'' ''pw3'')))
     = \<lparr>status = 400, content = Some (Json [(''error'', JStr ''Invalid input'')])\<rparr> \<and>
   response_of (fst (post_signup offline_env (login ''carol'' ''pw3'')))
     \<noteq> \<lparr>status = 500, content = Some (Json [(''error'', JStr ''Server error'')])\<rparr>"
  by (simp add: post_signup_def route_def createNewUser_def hashPassword_def as_input_def
        errorHandler_def response_of_def offline_env_def example_env_def login_def lib_error_def)

end
